theory Spec2Isabelle
  imports Complex_Main
begin

section \<open>Data model of \<open>pose_detector.py\<close>\<close>

text \<open>
  A MediaPipe landmark carries three floating-point coordinates. They are modelled as
  real numbers: the embedding follows the comparisons and the arithmetic of the code on
  exact values, and says nothing about rounding or NaN.
\<close>

record landmark =
  lm_x :: real
  lm_y :: real
  lm_z :: real

text \<open>
  The three result objects of MediaPipe. The \<open>landmark\<close> field of a landmark list is a
  sequence indexed by position; \<open>pose_landmarks\<close> is \<open>None\<close> or one such sequence,
  \<open>multi_hand_landmarks\<close> and \<open>multi_face_landmarks\<close> are \<open>None\<close> or a Python list of them.
\<close>

record pose_results =
  pose_landmarks :: "landmark list option"

record hand_results =
  multi_hand_landmarks :: "landmark list list option"

record face_results =
  multi_face_landmarks :: "landmark list list option"

text \<open>The pose thresholds of \<open>PoseDetectionConfig\<close> in \<open>config.py\<close>, with their defaults.\<close>

record PoseDetectionConfig =
  hand_raise_threshold :: real
  mouth_open_threshold :: real
  hand_to_face_threshold :: real

definition CONFIG_pose :: PoseDetectionConfig where
  "CONFIG_pose = \<lparr>hand_raise_threshold = 5 / 100, mouth_open_threshold = 15 / 100,
     hand_to_face_threshold = 8 / 100\<rparr>"

record DebugInfo =
  mouth_ratio :: real
  hand_height :: real
  hands_detected :: nat
  face_detected :: bool

text \<open>\<open>DebugInfo()\<close>: the dataclass defaults.\<close>

definition DebugInfo_default :: DebugInfo where
  "DebugInfo_default = \<lparr>mouth_ratio = 0, hand_height = 0, hands_detected = 0, face_detected = False\<rparr>"

datatype error = IndexError | AttributeError | Cv2Error | OtherException

text \<open>Reading a sequence at a non-negative constant index: Python raises \<open>IndexError\<close> out of range.\<close>

definition getitem :: "'a list \<Rightarrow> nat \<Rightarrow> error + 'a" where
  "getitem xs i = (if i < length xs then Inr (xs ! i) else Inl IndexError)"

text \<open>
  The landmark indices the classifier reads, as MediaPipe's enumerations
  \<open>PoseLandmark\<close> and \<open>HandLandmark\<close> number them. The face mesh indices
  13, 14, 10, 152 and 0 are literals in the source.
\<close>

definition NOSE :: nat where "NOSE = 0"
definition WRIST :: nat where "WRIST = 0"
definition THUMB_TIP :: nat where "THUMB_TIP = 4"
definition INDEX_FINGER_TIP :: nat where "INDEX_FINGER_TIP = 8"
definition MIDDLE_FINGER_TIP :: nat where "MIDDLE_FINGER_TIP = 12"

text \<open>Truth value of \<open>None\<close> or a Python list: \<open>None\<close> and the empty list are false.\<close>

definition truthy_list :: "'a list option \<Rightarrow> bool" where
  "truthy_list r = (case r of None \<Rightarrow> False | Some xs \<Rightarrow> xs \<noteq> [])"

section \<open>The rules\<close>

subsection \<open>\<open>_is_raising_hand\<close>\<close>

text \<open>
  The \<open>for\<close> loop over the hands. It writes \<open>hand_height\<close> for the hand at hand before
  it compares, and returns at the first hand above the threshold. Reading the wrist
  of a hand is not guarded: an \<open>IndexError\<close> leaves the function.
\<close>

fun raising_hand_loop ::
  "real \<Rightarrow> real \<Rightarrow> landmark list list \<Rightarrow> DebugInfo \<Rightarrow> (error + bool) \<times> DebugInfo" where
  "raising_hand_loop thr nose_y [] d = (Inr False, d)"
| "raising_hand_loop thr nose_y (hand_landmarks # rest) d =
     (case getitem hand_landmarks WRIST of
        Inl e \<Rightarrow> (Inl e, d)
      | Inr wrist \<Rightarrow>
          (let wrist_y = lm_y wrist;
               height_diff = nose_y - wrist_y;
               d' = d\<lparr>hand_height := height_diff\<rparr>
           in if height_diff > thr then (Inr True, d')
              else raising_hand_loop thr nose_y rest d'))"

definition is_raising_hand ::
  "PoseDetectionConfig \<Rightarrow> pose_results option \<Rightarrow> hand_results option \<Rightarrow> DebugInfo
     \<Rightarrow> (error + bool) \<times> DebugInfo" where
  "is_raising_hand cfg pose_res hand_res d =
     (if pose_res = None \<or> hand_res = None then (Inr False, d\<lparr>hand_height := 0\<rparr>)
      else if pose_landmarks (the pose_res) = None
              \<or> \<not> truthy_list (multi_hand_landmarks (the hand_res))
      then (Inr False, d\<lparr>hand_height := 0\<rparr>)
      else
        (case getitem (the (pose_landmarks (the pose_res))) NOSE of
           Inl e \<Rightarrow> (Inl e, d)
         | Inr nose \<Rightarrow>
             raising_hand_loop (hand_raise_threshold cfg) (lm_y nose)
               (the (multi_hand_landmarks (the hand_res))) d))"

subsection \<open>\<open>_is_shocking\<close>\<close>

text \<open>The body of the \<open>try\<close> block: the mouth ratio of the first face.\<close>

definition shocking_ratio :: "landmark list list \<Rightarrow> error + real" where
  "shocking_ratio faces =
     (case getitem faces 0 of
        Inl e \<Rightarrow> Inl e
      | Inr face_landmarks \<Rightarrow>
     (case getitem face_landmarks 13 of
        Inl e \<Rightarrow> Inl e
      | Inr upper_lip \<Rightarrow>
     (case getitem face_landmarks 14 of
        Inl e \<Rightarrow> Inl e
      | Inr lower_lip \<Rightarrow>
     (case getitem face_landmarks 10 of
        Inl e \<Rightarrow> Inl e
      | Inr forehead \<Rightarrow>
     (case getitem face_landmarks 152 of
        Inl e \<Rightarrow> Inl e
      | Inr chin \<Rightarrow>
          (let face_height = \<bar>lm_y chin - lm_y forehead\<bar>;
               mouth_opening = \<bar>lm_y lower_lip - lm_y upper_lip\<bar>
           in Inr (if face_height > 0 then mouth_opening / face_height else 0)))))))"

definition is_shocking ::
  "PoseDetectionConfig \<Rightarrow> face_results option \<Rightarrow> DebugInfo \<Rightarrow> (error + bool) \<times> DebugInfo" where
  "is_shocking cfg face_res d =
     (if face_res = None then (Inr False, d\<lparr>mouth_ratio := 0\<rparr>)
      else if \<not> truthy_list (multi_face_landmarks (the face_res))
      then (Inr False, d\<lparr>mouth_ratio := 0\<rparr>)
      else
        (case shocking_ratio (the (multi_face_landmarks (the face_res))) of
           Inr ratio \<Rightarrow> (Inr (ratio > mouth_open_threshold cfg), d\<lparr>mouth_ratio := ratio\<rparr>)
         | Inl e \<Rightarrow>
             (if e = IndexError \<or> e = AttributeError then (Inr False, d\<lparr>mouth_ratio := 0\<rparr>)
              else (Inl e, d))))"

subsection \<open>\<open>_is_thinking\<close>\<close>

definition distance :: "landmark \<Rightarrow> landmark \<Rightarrow> real" where
  "distance finger_tip mouth_point =
     sqrt ((lm_x finger_tip - lm_x mouth_point)\<^sup>2 + (lm_y finger_tip - lm_y mouth_point)\<^sup>2)"

text \<open>The inner loop over the mouth points: \<open>True\<close> when it returns from the function.\<close>

fun mouth_loop :: "real \<Rightarrow> landmark \<Rightarrow> landmark list \<Rightarrow> bool" where
  "mouth_loop thr finger_tip [] = False"
| "mouth_loop thr finger_tip (mouth_point # rest) =
     (if distance finger_tip mouth_point < thr then True else mouth_loop thr finger_tip rest)"

fun finger_loop :: "real \<Rightarrow> landmark list \<Rightarrow> landmark list \<Rightarrow> bool" where
  "finger_loop thr [] mouth_points = False"
| "finger_loop thr (finger_tip # rest) mouth_points =
     (if mouth_loop thr finger_tip mouth_points then True else finger_loop thr rest mouth_points)"

definition finger_tips :: "landmark list \<Rightarrow> error + landmark list" where
  "finger_tips hand_landmarks =
     (case getitem hand_landmarks THUMB_TIP of
        Inl e \<Rightarrow> Inl e
      | Inr thumb \<Rightarrow>
     (case getitem hand_landmarks INDEX_FINGER_TIP of
        Inl e \<Rightarrow> Inl e
      | Inr index \<Rightarrow>
     (case getitem hand_landmarks MIDDLE_FINGER_TIP of
        Inl e \<Rightarrow> Inl e
      | Inr middle \<Rightarrow> Inr [thumb, index, middle])))"

fun thinking_hands_loop :: "real \<Rightarrow> landmark list \<Rightarrow> landmark list list \<Rightarrow> error + bool" where
  "thinking_hands_loop thr mouth_points [] = Inr False"
| "thinking_hands_loop thr mouth_points (hand_landmarks # rest) =
     (case finger_tips hand_landmarks of
        Inl e \<Rightarrow> Inl e
      | Inr tips \<Rightarrow>
          (if finger_loop thr tips mouth_points then Inr True
           else thinking_hands_loop thr mouth_points rest))"

definition mouth_points :: "landmark list list \<Rightarrow> error + landmark list" where
  "mouth_points faces =
     (case getitem faces 0 of
        Inl e \<Rightarrow> Inl e
      | Inr face_landmarks \<Rightarrow>
     (case getitem face_landmarks 13 of
        Inl e \<Rightarrow> Inl e
      | Inr upper_lip \<Rightarrow>
     (case getitem face_landmarks 14 of
        Inl e \<Rightarrow> Inl e
      | Inr lower_lip \<Rightarrow>
     (case getitem face_landmarks 152 of
        Inl e \<Rightarrow> Inl e
      | Inr chin \<Rightarrow>
     (case getitem face_landmarks 0 of
        Inl e \<Rightarrow> Inl e
      | Inr mouth_center \<Rightarrow> Inr [upper_lip, lower_lip, chin, mouth_center])))))"

text \<open>The body of the \<open>try\<close> block of \<open>_is_thinking\<close>.\<close>

definition thinking_body :: "real \<Rightarrow> landmark list list \<Rightarrow> landmark list list \<Rightarrow> error + bool" where
  "thinking_body thr faces hands =
     (case mouth_points faces of
        Inl e \<Rightarrow> Inl e
      | Inr mps \<Rightarrow> thinking_hands_loop thr mps hands)"

definition is_thinking ::
  "PoseDetectionConfig \<Rightarrow> pose_results option \<Rightarrow> hand_results option \<Rightarrow> face_results option
     \<Rightarrow> DebugInfo \<Rightarrow> (error + bool) \<times> DebugInfo" where
  "is_thinking cfg pose_res hand_res face_res d =
     (if face_res = None \<or> hand_res = None then (Inr False, d)
      else if \<not> truthy_list (multi_face_landmarks (the face_res))
              \<or> \<not> truthy_list (multi_hand_landmarks (the hand_res))
      then (Inr False, d)
      else
        (case thinking_body (hand_to_face_threshold cfg)
                (the (multi_face_landmarks (the face_res)))
                (the (multi_hand_landmarks (the hand_res))) of
           Inr b \<Rightarrow> (Inr b, d)
         | Inl e \<Rightarrow>
             (if e = IndexError \<or> e = AttributeError then (Inr False, d) else (Inl e, d))))"

section \<open>\<open>_determine_pose\<close> and \<open>detect_pose\<close>\<close>

definition determine_pose ::
  "PoseDetectionConfig \<Rightarrow> pose_results option \<Rightarrow> hand_results option \<Rightarrow> face_results option
     \<Rightarrow> DebugInfo \<Rightarrow> (error + string) \<times> DebugInfo" where
  "determine_pose cfg pose_res hand_res face_res d =
     (case is_raising_hand cfg pose_res hand_res d of
        (Inl e, d1) \<Rightarrow> (Inl e, d1)
      | (Inr True, d1) \<Rightarrow> (Inr ''raising_hand'', d1)
      | (Inr False, d1) \<Rightarrow>
     (case is_thinking cfg pose_res hand_res face_res d1 of
        (Inl e, d2) \<Rightarrow> (Inl e, d2)
      | (Inr True, d2) \<Rightarrow> (Inr ''thinking'', d2)
      | (Inr False, d2) \<Rightarrow>
     (case is_shocking cfg face_res d2 of
        (Inl e, d3) \<Rightarrow> (Inl e, d3)
      | (Inr True, d3) \<Rightarrow> (Inr ''shocking'', d3)
      | (Inr False, d3) \<Rightarrow> (Inr ''default'', d3))))"

text \<open>
  Lines 118 to 129 of \<open>detect_pose\<close>: the debug information is rebuilt from its defaults,
  then \<open>face_detected\<close> and \<open>hands_detected\<close> are filled in from the detection results.
\<close>

definition reset_debug_info :: "hand_results option \<Rightarrow> face_results option \<Rightarrow> DebugInfo" where
  "reset_debug_info hand_res face_res =
     (let d0 = DebugInfo_default;
          d1 = (if face_res \<noteq> None \<and> truthy_list (multi_face_landmarks (the face_res))
                then d0\<lparr>face_detected := True\<rparr> else d0);
          d2 = (if hand_res \<noteq> None \<and> truthy_list (multi_hand_landmarks (the hand_res))
                then d1\<lparr>hands_detected := length (the (multi_hand_landmarks (the hand_res)))\<rparr>
                else d1)
      in d2)"

text \<open>
  Lines 118 to 132 of \<open>detect_pose\<close>, the classification of one frame's detection results:
  reset, fill in, \<open>_determine_pose\<close>. It yields the pose name (or the exception that
  leaves \<open>_determine_pose\<close>) and the debug information stored in the detector.
\<close>

definition classify ::
  "PoseDetectionConfig \<Rightarrow> pose_results option \<Rightarrow> hand_results option \<Rightarrow> face_results option
     \<Rightarrow> (error + string) \<times> DebugInfo" where
  "classify cfg pose_res hand_res face_res =
     determine_pose cfg pose_res hand_res face_res (reset_debug_info hand_res face_res)"

text \<open>
  The detector object: the fields \<open>detect_pose\<close> writes. The MediaPipe models are
  external; what they did on this frame is an argument of \<open>detect_pose\<close>:
  \<open>cvt\<close> is the outcome of \<open>cv2.cvtColor\<close>, \<open>det\<close> the outcome of the three \<open>process\<close>
  calls. Of the returned frame only its origin is kept: the frame passed in, or the
  copy the landmarks are drawn on. Drawing changes neither the pose name nor the
  debug information.
\<close>

record PoseDetector =
  debug_info :: DebugInfo
  current_language :: string

datatype frame_out = OriginalFrame | DisplayFrame

type_synonym detections = "pose_results option \<times> hand_results option \<times> face_results option"

definition detect_pose ::
  "PoseDetectionConfig \<Rightarrow> error + unit \<Rightarrow> error + detections \<Rightarrow> bool \<Rightarrow> string \<Rightarrow> PoseDetector
     \<Rightarrow> (error + frame_out \<times> string) \<times> PoseDetector" where
  "detect_pose cfg cvt det show_landmarks language self =
     (let self1 = self\<lparr>current_language := language\<rparr> in
      case cvt of
        Inl e \<Rightarrow> (if e = Cv2Error then (Inr (OriginalFrame, ''default''), self1) else (Inl e, self1))
      | Inr rgb_frame \<Rightarrow>
     (case det of
        Inl e \<Rightarrow> (Inr (OriginalFrame, ''default''), self1)
      | Inr (pose_res, hand_res, face_res) \<Rightarrow>
          (case classify cfg pose_res hand_res face_res of
             (Inl e, d) \<Rightarrow> (Inl e, self1\<lparr>debug_info := d\<rparr>)
           | (Inr pose_name, d) \<Rightarrow>
               (Inr (if show_landmarks then DisplayFrame else OriginalFrame, pose_name),
                self1\<lparr>debug_info := d\<rparr>))))"

section \<open>Quantities and conditions the specification names\<close>

text \<open>
  A landmark list is complete for a rule when it holds every index the rule reads.
  MediaPipe delivers 33 body, 21 hand and 468 or more face landmarks, which is what the
  specification's data model assumes; the type of the lists does not enforce it.
\<close>

definition has_nose :: "landmark list \<Rightarrow> bool" where
  "has_nose body = (NOSE < length body)"

definition has_wrist :: "landmark list \<Rightarrow> bool" where
  "has_wrist hand = (WRIST < length hand)"

definition has_finger_tips :: "landmark list \<Rightarrow> bool" where
  "has_finger_tips hand =
     (THUMB_TIP < length hand \<and> INDEX_FINGER_TIP < length hand \<and> MIDDLE_FINGER_TIP < length hand)"

text \<open>Index 152 is the largest face index that \<open>_is_shocking\<close> or \<open>_is_thinking\<close> reads.\<close>

definition has_mouth_region :: "landmark list \<Rightarrow> bool" where
  "has_mouth_region face = (152 < length face)"

text \<open>\<open>height_diff = nose_y - wrist_y\<close> of a hand, for a body and a hand that have the points.\<close>

definition height_diff :: "landmark list \<Rightarrow> landmark list \<Rightarrow> real" where
  "height_diff body hand = lm_y (body ! NOSE) - lm_y (hand ! WRIST)"

text \<open>
  The mouth ratio as the specification writes it: mouth opening over face height when the
  face height is positive, else zero.
\<close>

definition spec_mouth_ratio :: "landmark list \<Rightarrow> real" where
  "spec_mouth_ratio face =
     (if \<bar>lm_y (face ! 152) - lm_y (face ! 10)\<bar> > 0
      then \<bar>lm_y (face ! 14) - lm_y (face ! 13)\<bar> / \<bar>lm_y (face ! 152) - lm_y (face ! 10)\<bar>
      else 0)"

text \<open>
  The Thinking condition as the specification writes it: some fingertip of some hand is
  closer than the threshold to some mouth-region point of the face, in the plane.
\<close>

definition spec_finger_tips :: "landmark list \<Rightarrow> landmark list" where
  "spec_finger_tips hand = [hand ! THUMB_TIP, hand ! INDEX_FINGER_TIP, hand ! MIDDLE_FINGER_TIP]"

definition spec_mouth_region :: "landmark list \<Rightarrow> landmark list" where
  "spec_mouth_region face = [face ! 13, face ! 14, face ! 152, face ! 0]"

definition spec_hand_near_mouth :: "real \<Rightarrow> landmark list \<Rightarrow> landmark list \<Rightarrow> bool" where
  "spec_hand_near_mouth thr face hand =
     (\<exists>f \<in> set (spec_finger_tips hand). \<exists>m \<in> set (spec_mouth_region face).
        sqrt ((lm_x f - lm_x m)\<^sup>2 + (lm_y f - lm_y m)\<^sup>2) < thr)"

section \<open>Example landmarks\<close>

text \<open>
  Concrete landmark lists of MediaPipe's sizes, for evaluating the rules: a body whose
  nose is at height \<open>nose_y\<close>, a hand whose wrist is at height \<open>wrist_y\<close> and whose other
  points all sit at \<open>tip\<close>, and a face given by the heights of forehead, upper lip,
  lower lip and chin (the mouth centre sits on the upper lip).
\<close>

definition pt :: "real \<Rightarrow> real \<Rightarrow> landmark" where
  "pt a b = \<lparr>lm_x = a, lm_y = b, lm_z = 0\<rparr>"

definition body_with :: "real \<Rightarrow> landmark list" where
  "body_with nose_y = replicate 33 (pt (1/2) nose_y)"

definition hand_with :: "real \<Rightarrow> landmark \<Rightarrow> landmark list" where
  "hand_with wrist_y tip = (replicate 21 tip)[0 := pt (1/2) wrist_y]"

definition face_with :: "real \<Rightarrow> real \<Rightarrow> real \<Rightarrow> real \<Rightarrow> landmark list" where
  "face_with forehead_y upper_y lower_y chin_y =
     (replicate 468 (pt (1/2) upper_y))
       [10 := pt (1/2) forehead_y, 14 := pt (1/2) lower_y, 152 := pt (1/2) chin_y]"

definition tip_far :: landmark where
  "tip_far = pt 0 0"

definition tip_near :: landmark where
  "tip_near = pt (52/100) (31/100)"

definition face_open :: "landmark list" where
  "face_open = face_with (10/100) (30/100) (40/100) (60/100)"

definition face_closed :: "landmark list" where
  "face_closed = face_with (10/100) (30/100) (32/100) (60/100)"

definition face_flat :: "landmark list" where
  "face_flat = face_with (10/100) (30/100) (90/100) (10/100)"

section \<open>Properties of the rules\<close>

subsection \<open>The loop over the hands\<close>

lemma raising_hand_loop_none:
  "\<forall>h \<in> set hs. has_wrist h \<and> \<not> thr < ny - lm_y (h ! WRIST) \<Longrightarrow>
   raising_hand_loop thr ny hs d =
     (Inr False, if hs = [] then d else d\<lparr>hand_height := ny - lm_y (last hs ! WRIST)\<rparr>)"
  by (induction hs arbitrary: d) (auto simp: getitem_def has_wrist_def Let_def)

lemma raising_hand_loop_first:
  "\<forall>g \<in> set hs1. has_wrist g \<and> \<not> thr < ny - lm_y (g ! WRIST) \<Longrightarrow> has_wrist h \<Longrightarrow>
   thr < ny - lm_y (h ! WRIST) \<Longrightarrow>
   raising_hand_loop thr ny (hs1 @ h # hs2) d = (Inr True, d\<lparr>hand_height := ny - lm_y (h ! WRIST)\<rparr>)"
  by (induction hs1 arbitrary: d) (auto simp: getitem_def has_wrist_def Let_def)

lemma raising_hand_loop_iff:
  "\<forall>h \<in> set hs. has_wrist h \<Longrightarrow>
   fst (raising_hand_loop thr ny hs d) = Inr (\<exists>h \<in> set hs. thr < ny - lm_y (h ! WRIST))"
  by (induction hs arbitrary: d) (auto simp: getitem_def has_wrist_def Let_def)

lemma raising_hand_loop_frame:
  "mouth_ratio (snd (raising_hand_loop thr ny hs d)) = mouth_ratio d \<and>
   hands_detected (snd (raising_hand_loop thr ny hs d)) = hands_detected d \<and>
   face_detected (snd (raising_hand_loop thr ny hs d)) = face_detected d"
  by (induction hs arbitrary: d) (auto simp: getitem_def Let_def split: sum.splits)

lemma raising_hand_loop_fst_indep:
  "fst (raising_hand_loop thr ny hs d) = fst (raising_hand_loop thr ny hs d')"
  by (induction hs arbitrary: d d') (auto simp: getitem_def Let_def split: sum.splits)

subsection \<open>What each rule reads and writes\<close>

lemma is_raising_hand_frame:
  "mouth_ratio (snd (is_raising_hand cfg pr hr d)) = mouth_ratio d \<and>
   hands_detected (snd (is_raising_hand cfg pr hr d)) = hands_detected d \<and>
   face_detected (snd (is_raising_hand cfg pr hr d)) = face_detected d"
  by (simp add: is_raising_hand_def raising_hand_loop_frame split: sum.splits)

lemma is_raising_hand_fst_indep:
  "fst (is_raising_hand cfg pr hr d) = fst (is_raising_hand cfg pr hr d')"
  using raising_hand_loop_fst_indep by (auto simp: is_raising_hand_def split: sum.splits)

lemma is_thinking_snd: "snd (is_thinking cfg pr hr fr d) = d"
  by (auto simp: is_thinking_def split: sum.splits)

lemma is_thinking_fst_indep: "fst (is_thinking cfg pr hr fr d) = fst (is_thinking cfg pr hr fr d')"
  by (auto simp: is_thinking_def split: sum.splits)

lemma is_shocking_fst_indep: "fst (is_shocking cfg fr d) = fst (is_shocking cfg fr d')"
  by (auto simp: is_shocking_def split: sum.splits)

lemma is_shocking_frame:
  "hand_height (snd (is_shocking cfg fr d)) = hand_height d \<and>
   hands_detected (snd (is_shocking cfg fr d)) = hands_detected d \<and>
   face_detected (snd (is_shocking cfg fr d)) = face_detected d"
  by (simp add: is_shocking_def split: sum.splits)

subsection \<open>\<open>_determine_pose\<close> as a chain of the rules\<close>

lemma determine_pose_unfold:
  "is_raising_hand cfg pr hr d = (r1, d1) \<Longrightarrow>
   determine_pose cfg pr hr fr d =
     (case r1 of Inl e \<Rightarrow> (Inl e, d1) | Inr True \<Rightarrow> (Inr ''raising_hand'', d1)
      | Inr False \<Rightarrow>
        (case fst (is_thinking cfg pr hr fr d1) of Inl e \<Rightarrow> (Inl e, d1)
         | Inr True \<Rightarrow> (Inr ''thinking'', d1)
         | Inr False \<Rightarrow>
           (case is_shocking cfg fr d1 of (Inl e, d3) \<Rightarrow> (Inl e, d3)
            | (Inr True, d3) \<Rightarrow> (Inr ''shocking'', d3)
            | (Inr False, d3) \<Rightarrow> (Inr ''default'', d3))))"
proof -
  assume a: "is_raising_hand cfg pr hr d = (r1, d1)"
  obtain r2 where t: "is_thinking cfg pr hr fr d1 = (r2, d1)"
    using is_thinking_snd [of cfg pr hr fr d1] by (cases "is_thinking cfg pr hr fr d1") auto
  show ?thesis
    by (simp add: determine_pose_def a t split: sum.splits bool.splits)
qed

lemma determine_pose_raising:
  "is_raising_hand cfg pr hr d = (Inr True, d1) \<Longrightarrow>
   determine_pose cfg pr hr fr d = (Inr ''raising_hand'', d1)"
  by (simp add: determine_pose_def)

lemma determine_pose_hand_height:
  "hand_height (snd (determine_pose cfg pr hr fr d)) = hand_height (snd (is_raising_hand cfg pr hr d))"
proof -
  obtain r1 d1 where a: "is_raising_hand cfg pr hr d = (r1, d1)"
    by (cases "is_raising_hand cfg pr hr d") auto
  obtain r3 d3 where s: "is_shocking cfg fr d1 = (r3, d3)"
    by (cases "is_shocking cfg fr d1") auto
  have "hand_height d3 = hand_height d1"
    using is_shocking_frame [of cfg fr d1] by (simp add: s)
  then show ?thesis
    by (simp add: determine_pose_unfold [OF a] a s split: sum.splits bool.splits)
qed

lemma is_raising_hand_present:
  "has_nose body \<Longrightarrow> hands \<noteq> [] \<Longrightarrow>
   is_raising_hand cfg (Some \<lparr>pose_landmarks = Some body\<rparr>)
       (Some \<lparr>multi_hand_landmarks = Some hands\<rparr>) d =
     raising_hand_loop (hand_raise_threshold cfg) (lm_y (body ! NOSE)) hands d"
  by (simp add: is_raising_hand_def truthy_list_def getitem_def has_nose_def)

lemma is_raising_hand_absent:
  "pr = None \<or> pose_landmarks (the pr) = None \<or> hr = None
     \<or> \<not> truthy_list (multi_hand_landmarks (the hr)) \<Longrightarrow>
   is_raising_hand cfg pr hr d = (Inr False, d\<lparr>hand_height := 0\<rparr>)"
  by (auto simp: is_raising_hand_def)

subsection \<open>The example landmarks\<close>

lemma ex_simps:
  "has_nose (body_with n)" "has_wrist (hand_with w t)" "has_finger_tips (hand_with w t)"
  "has_mouth_region (face_with f u l c)"
  "height_diff (body_with n) (hand_with w t) = n - w"
  "lm_y (body_with n ! NOSE) = n"
  "spec_finger_tips (hand_with w t) = [t, t, t]"
  "spec_mouth_region (face_with f u l c) = [pt (1/2) u, pt (1/2) l, pt (1/2) c, pt (1/2) u]"
  "face_with f u l c ! 10 = pt (1/2) f" "face_with f u l c ! 152 = pt (1/2) c"
  "face_with f u l c ! 13 = pt (1/2) u" "face_with f u l c ! 14 = pt (1/2) l"
  by (simp_all add: has_nose_def has_wrist_def has_finger_tips_def has_mouth_region_def
      height_diff_def body_with_def hand_with_def face_with_def NOSE_def WRIST_def
      THUMB_TIP_def INDEX_FINGER_TIP_def MIDDLE_FINGER_TIP_def pt_def
      spec_finger_tips_def spec_mouth_region_def)

section \<open>The claims\<close>

subsection \<open>RaisingHand\<close>

text \<open>
  Claim C2. Let the body have its nose. If every hand has its wrist, the RaisingHand rule
  fires exactly when some hand has \<open>height_diff = nose_y - wrist_y\<close> strictly above
  \<open>hand_raise_threshold\<close>, for every threshold; hands that sit exactly on the threshold
  do not fire it. At the first hand above the threshold the rule returns at once: the
  result and the debug information do not depend on the hands after it (which may even
  lack a wrist) nor on the face, \<open>_determine_pose\<close> answers \<open>raising_hand\<close>, and only
  \<open>hand_height\<close> has been written, so neither Thinking nor Shocking was evaluated.
\<close>

theorem raising_hand_strict_threshold:
  assumes "has_nose body"
  shows
    "((\<forall>h \<in> set hands. has_wrist h) \<longrightarrow>
        fst (is_raising_hand cfg (Some \<lparr>pose_landmarks = Some body\<rparr>)
               (Some \<lparr>multi_hand_landmarks = Some hands\<rparr>) d)
          = Inr (\<exists>h \<in> set hands. hand_raise_threshold cfg < height_diff body h))
     \<and> ((\<forall>h \<in> set hands. has_wrist h \<and> height_diff body h = hand_raise_threshold cfg) \<longrightarrow>
        fst (is_raising_hand cfg (Some \<lparr>pose_landmarks = Some body\<rparr>)
               (Some \<lparr>multi_hand_landmarks = Some hands\<rparr>) d) = Inr False)
     \<and> ((\<forall>g \<in> set hs1. has_wrist g \<and> \<not> hand_raise_threshold cfg < height_diff body g)
          \<and> has_wrist h \<and> hand_raise_threshold cfg < height_diff body h \<longrightarrow>
        is_raising_hand cfg (Some \<lparr>pose_landmarks = Some body\<rparr>)
            (Some \<lparr>multi_hand_landmarks = Some (hs1 @ h # hs2)\<rparr>) d
          = (Inr True, d\<lparr>hand_height := height_diff body h\<rparr>)
        \<and> determine_pose cfg (Some \<lparr>pose_landmarks = Some body\<rparr>)
            (Some \<lparr>multi_hand_landmarks = Some (hs1 @ h # hs2)\<rparr>) fr d
          = (Inr ''raising_hand'', d\<lparr>hand_height := height_diff body h\<rparr>))"
proof -
  let ?P = "Some \<lparr>pose_landmarks = Some body\<rparr>"
  let ?t = "hand_raise_threshold cfg"
  have iff: "fst (is_raising_hand cfg ?P (Some \<lparr>multi_hand_landmarks = Some hands\<rparr>) d)
          = Inr (\<exists>h \<in> set hands. ?t < height_diff body h)"
    if wf: "\<forall>h \<in> set hands. has_wrist h" for hands
  proof (cases "hands = []")
    case True
    then show ?thesis by (simp add: is_raising_hand_def truthy_list_def)
  next
    case False
    then show ?thesis
      using raising_hand_loop_iff [OF wf] assms
      by (simp add: is_raising_hand_present height_diff_def)
  qed
  have first: "is_raising_hand cfg ?P (Some \<lparr>multi_hand_landmarks = Some (hs1 @ h # hs2)\<rparr>) d
          = (Inr True, d\<lparr>hand_height := height_diff body h\<rparr>)"
    if "\<forall>g \<in> set hs1. has_wrist g \<and> \<not> ?t < height_diff body g"
      and "has_wrist h" and "?t < height_diff body h"
    using that assms raising_hand_loop_first [of hs1 ?t "lm_y (body ! NOSE)" h hs2 d]
    by (simp add: is_raising_hand_present height_diff_def)
  show ?thesis
    using iff [of hands] first determine_pose_raising by auto
qed

theorem raising_hand_strict_threshold_witness:
  "has_nose (body_with (40/100))
   \<and> has_wrist (hand_with (35/100) tip_far)
   \<and> height_diff (body_with (40/100)) (hand_with (35/100) tip_far)
       = hand_raise_threshold CONFIG_pose
   \<and> fst (is_raising_hand CONFIG_pose (Some \<lparr>pose_landmarks = Some (body_with (40/100))\<rparr>)
          (Some \<lparr>multi_hand_landmarks = Some [hand_with (35/100) tip_far]\<rparr>) DebugInfo_default)
       = Inr False
   \<and> \<not> hand_raise_threshold CONFIG_pose
         < height_diff (body_with (40/100)) (hand_with (35/100) tip_far)
   \<and> has_wrist (hand_with (30/100) tip_far)
   \<and> hand_raise_threshold CONFIG_pose < height_diff (body_with (40/100)) (hand_with (30/100) tip_far)
   \<and> determine_pose CONFIG_pose (Some \<lparr>pose_landmarks = Some (body_with (40/100))\<rparr>)
        (Some \<lparr>multi_hand_landmarks =
           Some ([hand_with (35/100) tip_far] @ hand_with (30/100) tip_far # [[]])\<rparr>)
        (Some \<lparr>multi_face_landmarks = Some [face_open]\<rparr>)
        DebugInfo_default
       = (Inr ''raising_hand'', DebugInfo_default\<lparr>hand_height := 10/100\<rparr>)"
  using raising_hand_strict_threshold [of "body_with (40/100)" "[hand_with (35/100) tip_far]"
      CONFIG_pose DebugInfo_default "[hand_with (35/100) tip_far]" "hand_with (30/100) tip_far"
      "[[]]" "Some \<lparr>multi_face_landmarks = Some [face_open]\<rparr>"]
  by (simp add: ex_simps CONFIG_pose_def)

subsection \<open>The \<open>hand_height\<close> metric\<close>

lemma classify_hand_height:
  "hand_height (snd (classify cfg pr hr fr))
     = hand_height (snd (is_raising_hand cfg pr hr (reset_debug_info hr fr)))"
  by (simp add: classify_def determine_pose_hand_height)

text \<open>
  Claim C5. \<open>hand_height\<close> after classification is the value of one hand, not a maximum:
  the \<open>height_diff\<close> of the first hand above the threshold when the rule fires, whatever
  the hands after it are, and the \<open>height_diff\<close> of the last hand when no hand is above
  the threshold. When the body landmarks or the hands are absent the rule does not fire and
  \<open>hand_height\<close> is 0.
\<close>

theorem hand_height_last_evaluated:
  assumes "has_nose body"
  shows
    "((\<forall>g \<in> set hs1. has_wrist g \<and> \<not> hand_raise_threshold cfg < height_diff body g)
        \<and> has_wrist h \<and> hand_raise_threshold cfg < height_diff body h \<longrightarrow>
      hand_height (snd (classify cfg (Some \<lparr>pose_landmarks = Some body\<rparr>)
          (Some \<lparr>multi_hand_landmarks = Some (hs1 @ h # hs2)\<rparr>) fr)) = height_diff body h)
     \<and> (hands \<noteq> [] \<and> (\<forall>g \<in> set hands. has_wrist g \<and> \<not> hand_raise_threshold cfg < height_diff body g) \<longrightarrow>
      hand_height (snd (classify cfg (Some \<lparr>pose_landmarks = Some body\<rparr>)
          (Some \<lparr>multi_hand_landmarks = Some hands\<rparr>) fr)) = height_diff body (last hands))
     \<and> (pr = None \<or> pose_landmarks (the pr) = None \<or> hr = None
          \<or> \<not> truthy_list (multi_hand_landmarks (the hr)) \<longrightarrow>
      fst (is_raising_hand cfg pr hr d) = Inr False
      \<and> hand_height (snd (is_raising_hand cfg pr hr d)) = 0
      \<and> hand_height (snd (classify cfg pr hr fr)) = 0)"
proof -
  let ?P = "Some \<lparr>pose_landmarks = Some body\<rparr>"
  let ?t = "hand_raise_threshold cfg"
  let ?ny = "lm_y (body ! NOSE)"
  have fired: "hand_height (snd (classify cfg ?P
          (Some \<lparr>multi_hand_landmarks = Some (hs1 @ h # hs2)\<rparr>) fr)) = height_diff body h"
    if "\<forall>g \<in> set hs1. has_wrist g \<and> \<not> ?t < height_diff body g"
      and "has_wrist h" and "?t < height_diff body h"
    using that assms
      raising_hand_loop_first [of hs1 ?t ?ny h hs2]
    by (simp add: classify_hand_height is_raising_hand_present height_diff_def)
  have none: "hand_height (snd (classify cfg ?P
          (Some \<lparr>multi_hand_landmarks = Some hands\<rparr>) fr)) = height_diff body (last hands)"
    if "hands \<noteq> []" and "\<forall>g \<in> set hands. has_wrist g \<and> \<not> ?t < height_diff body g"
    using that assms
      raising_hand_loop_none [of hands ?t ?ny]
    by (simp add: classify_hand_height is_raising_hand_present height_diff_def)
  have absent: "fst (is_raising_hand cfg pr hr d) = Inr False
      \<and> hand_height (snd (is_raising_hand cfg pr hr d)) = 0
      \<and> hand_height (snd (classify cfg pr hr fr)) = 0"
    if "pr = None \<or> pose_landmarks (the pr) = None \<or> hr = None
          \<or> \<not> truthy_list (multi_hand_landmarks (the hr))"
    using that by (simp add: classify_hand_height is_raising_hand_absent)
  show ?thesis
    using fired none absent by blast
qed

theorem hand_height_last_evaluated_witness:
  "has_nose (body_with (40/100))
   \<and> has_wrist (hand_with (38/100) tip_far)
   \<and> \<not> hand_raise_threshold CONFIG_pose
         < height_diff (body_with (40/100)) (hand_with (38/100) tip_far)
   \<and> has_wrist (hand_with (34/100) tip_far)
   \<and> hand_raise_threshold CONFIG_pose < height_diff (body_with (40/100)) (hand_with (34/100) tip_far)
   \<and> hand_height (snd (classify CONFIG_pose (Some \<lparr>pose_landmarks = Some (body_with (40/100))\<rparr>)
        (Some \<lparr>multi_hand_landmarks = Some ([hand_with (38/100) tip_far]
            @ hand_with (34/100) tip_far # [hand_with (20/100) tip_far])\<rparr>) None)) = 6/100
   \<and> height_diff (body_with (40/100)) (hand_with (20/100) tip_far) = 20/100
   \<and> [hand_with (36/100) tip_far, hand_with (39/100) tip_far] \<noteq> []
   \<and> has_wrist (hand_with (36/100) tip_far) \<and> has_wrist (hand_with (39/100) tip_far)
   \<and> \<not> hand_raise_threshold CONFIG_pose
         < height_diff (body_with (40/100)) (hand_with (36/100) tip_far)
   \<and> \<not> hand_raise_threshold CONFIG_pose
         < height_diff (body_with (40/100)) (hand_with (39/100) tip_far)
   \<and> hand_height (snd (classify CONFIG_pose (Some \<lparr>pose_landmarks = Some (body_with (40/100))\<rparr>)
        (Some \<lparr>multi_hand_landmarks =
            Some [hand_with (36/100) tip_far, hand_with (39/100) tip_far]\<rparr>) None)) = 1/100
   \<and> height_diff (body_with (40/100)) (hand_with (36/100) tip_far) = 4/100
   \<and> hand_height (snd (classify CONFIG_pose None
        (Some \<lparr>multi_hand_landmarks = Some [hand_with (30/100) tip_far]\<rparr>) None)) = 0"
  using hand_height_last_evaluated [where body = "body_with (40/100)"
      and ?hs1.0 = "[hand_with (38/100) tip_far]" and cfg = CONFIG_pose
      and h = "hand_with (34/100) tip_far" and ?hs2.0 = "[hand_with (20/100) tip_far]"
      and fr = None and hands = "[hand_with (36/100) tip_far, hand_with (39/100) tip_far]"
      and pr = None and hr = "Some \<lparr>multi_hand_landmarks = Some [hand_with (30/100) tip_far]\<rparr>"
      and d = DebugInfo_default]
  by (simp add: ex_simps CONFIG_pose_def)

subsection \<open>Thinking\<close>

lemma mouth_loop_iff: "mouth_loop thr f ms = (\<exists>m \<in> set ms. distance f m < thr)"
  by (induction ms) auto

lemma finger_loop_iff:
  "finger_loop thr fs ms = (\<exists>f \<in> set fs. \<exists>m \<in> set ms. distance f m < thr)"
  by (induction fs) (auto simp: mouth_loop_iff)

lemma finger_tips_complete: "has_finger_tips h \<Longrightarrow> finger_tips h = Inr (spec_finger_tips h)"
  by (simp add: finger_tips_def has_finger_tips_def getitem_def spec_finger_tips_def)

lemma mouth_points_complete:
  "has_mouth_region face \<Longrightarrow> mouth_points (face # faces) = Inr (spec_mouth_region face)"
  by (auto simp: mouth_points_def has_mouth_region_def getitem_def spec_mouth_region_def)

lemma hand_step:
  "has_finger_tips h \<Longrightarrow>
   thinking_hands_loop thr (spec_mouth_region face) (h # hs) =
     (if spec_hand_near_mouth thr face h then Inr True
      else thinking_hands_loop thr (spec_mouth_region face) hs)"
  by (simp add: finger_tips_complete finger_loop_iff spec_hand_near_mouth_def distance_def)

lemma thinking_hands_loop_iff:
  "\<forall>h \<in> set hs. has_finger_tips h \<Longrightarrow>
   thinking_hands_loop thr (spec_mouth_region face) hs
     = Inr (\<exists>h \<in> set hs. spec_hand_near_mouth thr face h)"
  by (induction hs) (simp_all add: hand_step del: thinking_hands_loop.simps(2))

lemma thinking_hands_loop_first:
  "\<forall>g \<in> set hs1. has_finger_tips g \<and> \<not> spec_hand_near_mouth thr face g \<Longrightarrow>
   has_finger_tips h \<Longrightarrow> spec_hand_near_mouth thr face h \<Longrightarrow>
   thinking_hands_loop thr (spec_mouth_region face) (hs1 @ h # hs2) = Inr True"
  by (induction hs1) (simp_all add: hand_step del: thinking_hands_loop.simps(2))

lemma is_thinking_present:
  "has_mouth_region face \<Longrightarrow> hands \<noteq> [] \<Longrightarrow>
   is_thinking cfg pr (Some \<lparr>multi_hand_landmarks = Some hands\<rparr>)
       (Some \<lparr>multi_face_landmarks = Some (face # faces)\<rparr>) d =
     (case thinking_hands_loop (hand_to_face_threshold cfg) (spec_mouth_region face) hands of
        Inr b \<Rightarrow> (Inr b, d)
      | Inl e \<Rightarrow> (if e = IndexError \<or> e = AttributeError then (Inr False, d) else (Inl e, d)))"
  by (simp add: is_thinking_def truthy_list_def thinking_body_def mouth_points_complete)

lemma is_thinking_absent:
  "fr = None \<or> hr = None \<or> \<not> truthy_list (multi_face_landmarks (the fr))
     \<or> \<not> truthy_list (multi_hand_landmarks (the hr)) \<Longrightarrow>
   is_thinking cfg pr hr fr d = (Inr False, d)"
  by (auto simp: is_thinking_def)

text \<open>
  Claim C4. Let the first face have its mouth-region points. If every hand has its three
  fingertips, the Thinking rule fires exactly when, for some hand, some fingertip and
  some mouth-region point of the first face, the distance in the plane
  \<open>sqrt ((fx - mx)\<^sup>2 + (fy - my)\<^sup>2)\<close> is strictly below \<open>hand_to_face_threshold\<close>.
  It stops at the first hand that is near: the hands after it are not read. With the face
  or the hands absent the rule does not fire. In every case the debug information is
  returned as it was.
\<close>

theorem thinking_near_mouth:
  assumes "has_mouth_region face"
  shows
    "((\<forall>h \<in> set hands. has_finger_tips h) \<longrightarrow>
        is_thinking cfg pr (Some \<lparr>multi_hand_landmarks = Some hands\<rparr>)
            (Some \<lparr>multi_face_landmarks = Some (face # faces)\<rparr>) d
          = (Inr (\<exists>h \<in> set hands. spec_hand_near_mouth (hand_to_face_threshold cfg) face h), d))
     \<and> ((\<forall>g \<in> set hs1. has_finger_tips g
              \<and> \<not> spec_hand_near_mouth (hand_to_face_threshold cfg) face g)
          \<and> has_finger_tips h \<and> spec_hand_near_mouth (hand_to_face_threshold cfg) face h \<longrightarrow>
        is_thinking cfg pr (Some \<lparr>multi_hand_landmarks = Some (hs1 @ h # hs2)\<rparr>)
            (Some \<lparr>multi_face_landmarks = Some (face # faces)\<rparr>) d = (Inr True, d))
     \<and> (fr = None \<or> hr = None \<or> \<not> truthy_list (multi_face_landmarks (the fr))
          \<or> \<not> truthy_list (multi_hand_landmarks (the hr)) \<longrightarrow>
        is_thinking cfg pr hr fr d = (Inr False, d))"
proof -
  let ?t = "hand_to_face_threshold cfg"
  let ?F = "Some \<lparr>multi_face_landmarks = Some (face # faces)\<rparr>"
  have iff: "is_thinking cfg pr (Some \<lparr>multi_hand_landmarks = Some hands\<rparr>) ?F d
          = (Inr (\<exists>h \<in> set hands. spec_hand_near_mouth ?t face h), d)"
    if wf: "\<forall>h \<in> set hands. has_finger_tips h"
  proof (cases "hands = []")
    case True
    then show ?thesis by (simp add: is_thinking_def truthy_list_def)
  next
    case False
    then show ?thesis
      using assms by (simp add: is_thinking_present thinking_hands_loop_iff [OF wf])
  qed
  have first: "is_thinking cfg pr (Some \<lparr>multi_hand_landmarks = Some (hs1 @ h # hs2)\<rparr>) ?F d
          = (Inr True, d)"
    if "\<forall>g \<in> set hs1. has_finger_tips g \<and> \<not> spec_hand_near_mouth ?t face g"
      and "has_finger_tips h" and "spec_hand_near_mouth ?t face h"
    using assms by (simp add: is_thinking_present thinking_hands_loop_first [OF that])
  show ?thesis
    using iff first is_thinking_absent [of fr hr cfg pr d] by blast
qed

lemma sqrt_less_threshold: "0 < t \<Longrightarrow> sqrt x < t \<longleftrightarrow> x < t\<^sup>2"
proof -
  assume "0 < t"
  then have "sqrt (t\<^sup>2) = t" by simp
  then show ?thesis by (metis real_sqrt_less_iff)
qed

lemma near_mouth_squares:
  "0 < thr \<Longrightarrow>
   spec_hand_near_mouth thr face hand \<longleftrightarrow>
     (\<exists>f \<in> set (spec_finger_tips hand). \<exists>m \<in> set (spec_mouth_region face).
        (lm_x f - lm_x m)\<^sup>2 + (lm_y f - lm_y m)\<^sup>2 < thr\<^sup>2)"
  by (simp add: spec_hand_near_mouth_def sqrt_less_threshold)

lemma ex_faces:
  "has_mouth_region face_open" "has_mouth_region face_closed" "has_mouth_region face_flat"
  "spec_mouth_ratio face_open = 20/100" "spec_mouth_ratio face_closed = 4/100"
  "spec_mouth_ratio face_flat = 0"
  "lm_y (face_flat ! 10) = lm_y (face_flat ! 152)"
  by (simp_all add: face_open_def face_closed_def face_flat_def ex_simps spec_mouth_ratio_def pt_def)

lemma ex_near:
  "spec_hand_near_mouth (hand_to_face_threshold CONFIG_pose) face_closed (hand_with w tip_near)"
  "spec_hand_near_mouth (hand_to_face_threshold CONFIG_pose) face_open (hand_with w tip_near)"
  "\<not> spec_hand_near_mouth (hand_to_face_threshold CONFIG_pose) face_closed (hand_with w tip_far)"
  "\<not> spec_hand_near_mouth (hand_to_face_threshold CONFIG_pose) face_open (hand_with w tip_far)"
  by (simp_all add: near_mouth_squares ex_simps pt_def power2_eq_square CONFIG_pose_def
      face_open_def face_closed_def tip_near_def tip_far_def)

lemma CONFIG_pose_simps:
  "hand_raise_threshold CONFIG_pose = 5/100" "mouth_open_threshold CONFIG_pose = 15/100"
  by (simp_all add: CONFIG_pose_def)

theorem thinking_near_mouth_witness:
  "has_mouth_region face_closed
   \<and> has_finger_tips (hand_with (50/100) tip_far)
   \<and> is_thinking CONFIG_pose None
        (Some \<lparr>multi_hand_landmarks =
           Some [hand_with (50/100) tip_far, hand_with (50/100) tip_near]\<rparr>)
        (Some \<lparr>multi_face_landmarks = Some (face_closed # [])\<rparr>)
        DebugInfo_default = (Inr True, DebugInfo_default)
   \<and> \<not> spec_hand_near_mouth (hand_to_face_threshold CONFIG_pose) face_closed
         (hand_with (50/100) tip_far)
   \<and> has_finger_tips (hand_with (50/100) tip_near)
   \<and> spec_hand_near_mouth (hand_to_face_threshold CONFIG_pose)
        face_closed (hand_with (50/100) tip_near)
   \<and> is_thinking CONFIG_pose None
        (Some \<lparr>multi_hand_landmarks =
           Some ([hand_with (50/100) tip_far] @ hand_with (50/100) tip_near # [[]])\<rparr>)
        (Some \<lparr>multi_face_landmarks = Some (face_closed # [])\<rparr>)
        DebugInfo_default = (Inr True, DebugInfo_default)
   \<and> is_thinking CONFIG_pose None
        (Some \<lparr>multi_hand_landmarks = Some [hand_with (50/100) tip_near]\<rparr>)
        None DebugInfo_default = (Inr False, DebugInfo_default)"
  using thinking_near_mouth [where face = "face_closed"
      and hands = "[hand_with (50/100) tip_far, hand_with (50/100) tip_near]"
      and cfg = CONFIG_pose and pr = None and faces = "[]" and d = DebugInfo_default
      and ?hs1.0 = "[hand_with (50/100) tip_far]"
      and h = "hand_with (50/100) tip_near" and ?hs2.0 = "[[]]"
      and fr = None
      and hr = "Some \<lparr>multi_hand_landmarks = Some [hand_with (50/100) tip_near]\<rparr>"]
  by (simp add: ex_simps ex_faces ex_near)

subsection \<open>Shocking\<close>

lemma shocking_ratio_complete:
  "has_mouth_region face \<Longrightarrow> shocking_ratio (face # faces) = Inr (spec_mouth_ratio face)"
  by (auto simp: shocking_ratio_def has_mouth_region_def getitem_def spec_mouth_ratio_def Let_def)

lemma is_shocking_present:
  "has_mouth_region face \<Longrightarrow>
   is_shocking cfg (Some \<lparr>multi_face_landmarks = Some (face # faces)\<rparr>) d
     = (Inr (mouth_open_threshold cfg < spec_mouth_ratio face),
        d\<lparr>mouth_ratio := spec_mouth_ratio face\<rparr>)"
  by (simp add: is_shocking_def truthy_list_def shocking_ratio_complete)

lemma spec_mouth_ratio_nonneg: "0 \<le> spec_mouth_ratio face"
  by (simp add: spec_mouth_ratio_def)

text \<open>
  Claim C3. For a first face that has its points, the Shocking rule stores
  \<open>mouth_ratio = \<bar>lower_lip_y - upper_lip_y\<bar> / \<bar>chin_y - forehead_y\<bar>\<close> when forehead and
  chin differ in height, and exactly 0 when they are level; it fires exactly when the
  stored ratio is strictly above \<open>mouth_open_threshold\<close>. With forehead and chin level it
  therefore does not fire, whatever the lips, for every threshold that is not negative
  (the configured one is 0.15).
\<close>

theorem shocking_mouth_ratio:
  assumes "has_mouth_region face"
  shows
    "is_shocking cfg (Some \<lparr>multi_face_landmarks = Some (face # faces)\<rparr>) d
       = (Inr (mouth_open_threshold cfg < spec_mouth_ratio face),
          d\<lparr>mouth_ratio := spec_mouth_ratio face\<rparr>)
     \<and> (lm_y (face ! 10) \<noteq> lm_y (face ! 152) \<longrightarrow>
          spec_mouth_ratio face
            = \<bar>lm_y (face ! 14) - lm_y (face ! 13)\<bar> / \<bar>lm_y (face ! 152) - lm_y (face ! 10)\<bar>)
     \<and> (lm_y (face ! 10) = lm_y (face ! 152) \<longrightarrow>
          mouth_ratio (snd (is_shocking cfg (Some \<lparr>multi_face_landmarks = Some (face # faces)\<rparr>) d)) = 0
          \<and> (0 \<le> mouth_open_threshold cfg \<longrightarrow>
              fst (is_shocking cfg (Some \<lparr>multi_face_landmarks = Some (face # faces)\<rparr>) d) = Inr False))"
  using assms by (auto simp: is_shocking_present spec_mouth_ratio_def)

theorem shocking_mouth_ratio_witness:
  "has_mouth_region face_open
   \<and> is_shocking CONFIG_pose
        (Some \<lparr>multi_face_landmarks = Some (face_open # [])\<rparr>)
        DebugInfo_default = (Inr True, DebugInfo_default\<lparr>mouth_ratio := 20/100\<rparr>)
   \<and> has_mouth_region face_flat
   \<and> lm_y (face_flat ! 10)
       = lm_y (face_flat ! 152)
   \<and> 0 \<le> mouth_open_threshold CONFIG_pose
   \<and> is_shocking CONFIG_pose
        (Some \<lparr>multi_face_landmarks = Some (face_flat # [])\<rparr>)
        DebugInfo_default = (Inr False, DebugInfo_default\<lparr>mouth_ratio := 0\<rparr>)"
  using shocking_mouth_ratio [where face = "face_open"
      and cfg = CONFIG_pose and faces = "[]" and d = DebugInfo_default]
    shocking_mouth_ratio [where face = "face_flat"
      and cfg = CONFIG_pose and faces = "[]" and d = DebugInfo_default]
  by (simp add: ex_faces CONFIG_pose_simps)

subsection \<open>Priority\<close>

lemma ex_getitem:
  "getitem (body_with n) NOSE = Inr (pt (1/2) n)"
  "getitem (hand_with w t) WRIST = Inr (pt (1/2) w)"
  by (simp_all add: getitem_def body_with_def hand_with_def NOSE_def WRIST_def)

text \<open>
  Claim C1. \<open>_determine_pose\<close> answers with the first rule that fires, in the order
  RaisingHand, Thinking, Shocking, Default, for every detection result and all
  thresholds. Whether a rule fires does not depend on the debug information it is run
  on, so the three conditions are properties of the detection results alone: if
  RaisingHand fires the answer is \<open>raising_hand\<close> whatever Thinking and Shocking would
  say, and if RaisingHand does not fire and Thinking does, the answer is \<open>thinking\<close>
  whatever Shocking would say.
\<close>

theorem determine_pose_priority:
  "(fst (is_raising_hand cfg pr hr d1) = Inr True \<longrightarrow>
      fst (determine_pose cfg pr hr fr d) = Inr ''raising_hand'')
   \<and> (fst (is_raising_hand cfg pr hr d1) = Inr False
        \<and> fst (is_thinking cfg pr hr fr d2) = Inr True \<longrightarrow>
      fst (determine_pose cfg pr hr fr d) = Inr ''thinking'')
   \<and> (fst (is_raising_hand cfg pr hr d1) = Inr False
        \<and> fst (is_thinking cfg pr hr fr d2) = Inr False
        \<and> fst (is_shocking cfg fr d3) = Inr True \<longrightarrow>
      fst (determine_pose cfg pr hr fr d) = Inr ''shocking'')
   \<and> (fst (is_raising_hand cfg pr hr d1) = Inr False
        \<and> fst (is_thinking cfg pr hr fr d2) = Inr False
        \<and> fst (is_shocking cfg fr d3) = Inr False \<longrightarrow>
      fst (determine_pose cfg pr hr fr d) = Inr ''default'')"
proof -
  obtain r1 e1 where a: "is_raising_hand cfg pr hr d = (r1, e1)"
    by (cases "is_raising_hand cfg pr hr d") auto
  obtain r3 e3 where s: "is_shocking cfg fr e1 = (r3, e3)"
    by (cases "is_shocking cfg fr e1") auto
  have r1: "fst (is_raising_hand cfg pr hr d1) = r1"
    using is_raising_hand_fst_indep [of cfg pr hr d1 d] by (simp add: a)
  have r2: "fst (is_thinking cfg pr hr fr e1) = fst (is_thinking cfg pr hr fr d2)"
    by (rule is_thinking_fst_indep)
  have r3: "fst (is_shocking cfg fr d3) = r3"
    using is_shocking_fst_indep [of cfg fr d3 e1] by (simp add: s)
  show ?thesis
    by (auto simp: determine_pose_unfold [OF a] r1 r2 r3 s)
qed

theorem determine_pose_priority_witness:
  "fst (is_raising_hand CONFIG_pose (Some \<lparr>pose_landmarks = Some (body_with (40/100))\<rparr>)
      (Some \<lparr>multi_hand_landmarks = Some [hand_with (30/100) tip_near]\<rparr>) DebugInfo_default) = Inr True
   \<and> fst (is_thinking CONFIG_pose (Some \<lparr>pose_landmarks = Some (body_with (40/100))\<rparr>)
      (Some \<lparr>multi_hand_landmarks = Some [hand_with (30/100) tip_near]\<rparr>)
      (Some \<lparr>multi_face_landmarks = Some [face_open]\<rparr>) DebugInfo_default) = Inr True
   \<and> fst (is_shocking CONFIG_pose (Some \<lparr>multi_face_landmarks = Some [face_open]\<rparr>)
      DebugInfo_default) = Inr True
   \<and> fst (determine_pose CONFIG_pose (Some \<lparr>pose_landmarks = Some (body_with (40/100))\<rparr>)
      (Some \<lparr>multi_hand_landmarks = Some [hand_with (30/100) tip_near]\<rparr>)
      (Some \<lparr>multi_face_landmarks = Some [face_open]\<rparr>) DebugInfo_default) = Inr ''raising_hand''
   \<and> fst (is_raising_hand CONFIG_pose (Some \<lparr>pose_landmarks = Some (body_with (40/100))\<rparr>)
      (Some \<lparr>multi_hand_landmarks = Some [hand_with (50/100) tip_near]\<rparr>) DebugInfo_default) = Inr False
   \<and> fst (is_thinking CONFIG_pose (Some \<lparr>pose_landmarks = Some (body_with (40/100))\<rparr>)
      (Some \<lparr>multi_hand_landmarks = Some [hand_with (50/100) tip_near]\<rparr>)
      (Some \<lparr>multi_face_landmarks = Some [face_open]\<rparr>) DebugInfo_default) = Inr True
   \<and> fst (determine_pose CONFIG_pose (Some \<lparr>pose_landmarks = Some (body_with (40/100))\<rparr>)
      (Some \<lparr>multi_hand_landmarks = Some [hand_with (50/100) tip_near]\<rparr>)
      (Some \<lparr>multi_face_landmarks = Some [face_open]\<rparr>) DebugInfo_default) = Inr ''thinking''"
proof -
  have raised: "fst (is_raising_hand CONFIG_pose (Some \<lparr>pose_landmarks = Some (body_with (40/100))\<rparr>)
      (Some \<lparr>multi_hand_landmarks = Some [hand_with (30/100) tip_near]\<rparr>) DebugInfo_default) = Inr True"
    by (simp add: is_raising_hand_def truthy_list_def ex_getitem pt_def CONFIG_pose_simps)
  have lowered: "fst (is_raising_hand CONFIG_pose (Some \<lparr>pose_landmarks = Some (body_with (40/100))\<rparr>)
      (Some \<lparr>multi_hand_landmarks = Some [hand_with (50/100) tip_near]\<rparr>) DebugInfo_default) = Inr False"
    by (simp add: is_raising_hand_def truthy_list_def ex_getitem pt_def CONFIG_pose_simps)
  have near: "fst (is_thinking CONFIG_pose pr
      (Some \<lparr>multi_hand_landmarks = Some [hand_with w tip_near]\<rparr>)
      (Some \<lparr>multi_face_landmarks = Some [face_open]\<rparr>) DebugInfo_default) = Inr True" for pr w
    by (simp add: is_thinking_present ex_faces ex_simps hand_step ex_near
        del: thinking_hands_loop.simps(2))
  have open_mouth: "fst (is_shocking CONFIG_pose (Some \<lparr>multi_face_landmarks = Some [face_open]\<rparr>)
      DebugInfo_default) = Inr True"
    by (simp add: is_shocking_present ex_faces CONFIG_pose_simps)
  show ?thesis
    using raised lowered near open_mouth
      determine_pose_priority [where cfg = CONFIG_pose
        and pr = "Some \<lparr>pose_landmarks = Some (body_with (40/100))\<rparr>"
        and hr = "Some \<lparr>multi_hand_landmarks = Some [hand_with (30/100) tip_near]\<rparr>"
        and fr = "Some \<lparr>multi_face_landmarks = Some [face_open]\<rparr>"
        and ?d1.0 = DebugInfo_default and ?d2.0 = DebugInfo_default and ?d3.0 = DebugInfo_default
        and d = DebugInfo_default]
      determine_pose_priority [where cfg = CONFIG_pose
        and pr = "Some \<lparr>pose_landmarks = Some (body_with (40/100))\<rparr>"
        and hr = "Some \<lparr>multi_hand_landmarks = Some [hand_with (50/100) tip_near]\<rparr>"
        and fr = "Some \<lparr>multi_face_landmarks = Some [face_open]\<rparr>"
        and ?d1.0 = DebugInfo_default and ?d2.0 = DebugInfo_default and ?d3.0 = DebugInfo_default
        and d = DebugInfo_default]
    by simp
qed

subsection \<open>Absent landmarks\<close>

lemma is_shocking_absent:
  "fr = None \<or> \<not> truthy_list (multi_face_landmarks (the fr)) \<Longrightarrow>
   is_shocking cfg fr d = (Inr False, d\<lparr>mouth_ratio := 0\<rparr>)"
  by (auto simp: is_shocking_def)

lemma reset_debug_info_absent:
  "hr = None \<or> \<not> truthy_list (multi_hand_landmarks (the hr)) \<Longrightarrow>
   fr = None \<or> \<not> truthy_list (multi_face_landmarks (the fr)) \<Longrightarrow>
   reset_debug_info hr fr = DebugInfo_default"
  by (auto simp: reset_debug_info_def)

text \<open>
  Claim C6. With no hands and no face detected (and so in particular for the empty
  snapshot, with no body either) the classification is \<open>default\<close>, with
  \<open>face_detected\<close> false, \<open>hands_detected\<close> 0, \<open>mouth_ratio\<close> 0 and \<open>hand_height\<close> 0.
\<close>

theorem classify_empty_snapshot:
  assumes "hr = None \<or> \<not> truthy_list (multi_hand_landmarks (the hr))"
    and "fr = None \<or> \<not> truthy_list (multi_face_landmarks (the fr))"
  shows "classify cfg pr hr fr
     = (Inr ''default'',
        \<lparr>mouth_ratio = 0, hand_height = 0, hands_detected = 0, face_detected = False\<rparr>)"
proof -
  have "is_raising_hand cfg pr hr DebugInfo_default = (Inr False, DebugInfo_default\<lparr>hand_height := 0\<rparr>)"
    using assms(1) by (simp add: is_raising_hand_absent)
  moreover have "is_thinking cfg pr hr fr d = (Inr False, d)" for d
    using assms(1) by (simp add: is_thinking_absent)
  moreover have "is_shocking cfg fr d = (Inr False, d\<lparr>mouth_ratio := 0\<rparr>)" for d
    using assms(2) by (simp add: is_shocking_absent)
  ultimately show ?thesis
    by (simp add: classify_def reset_debug_info_absent [OF assms] determine_pose_def
        DebugInfo_default_def)
qed

theorem classify_empty_snapshot_witness:
  "\<not> truthy_list (multi_hand_landmarks \<lparr>multi_hand_landmarks = None\<rparr>)
   \<and> \<not> truthy_list (multi_face_landmarks \<lparr>multi_face_landmarks = None\<rparr>)
   \<and> classify CONFIG_pose (Some \<lparr>pose_landmarks = None\<rparr>) (Some \<lparr>multi_hand_landmarks = None\<rparr>)
       (Some \<lparr>multi_face_landmarks = None\<rparr>)
     = (Inr ''default'',
        \<lparr>mouth_ratio = 0, hand_height = 0, hands_detected = 0, face_detected = False\<rparr>)
   \<and> classify CONFIG_pose None None None
     = (Inr ''default'',
        \<lparr>mouth_ratio = 0, hand_height = 0, hands_detected = 0, face_detected = False\<rparr>)"
  using classify_empty_snapshot [of "Some \<lparr>multi_hand_landmarks = None\<rparr>"
      "Some \<lparr>multi_face_landmarks = None\<rparr>" CONFIG_pose "Some \<lparr>pose_landmarks = None\<rparr>"]
    classify_empty_snapshot [of None None CONFIG_pose None]
  by (simp add: truthy_list_def)

subsection \<open>Exceptions\<close>

lemma getitem_error: "getitem xs i = Inl e \<Longrightarrow> e = IndexError"
  by (simp add: getitem_def split: if_splits)

lemma shocking_ratio_error: "shocking_ratio faces = Inl e \<Longrightarrow> e = IndexError"
  by (auto simp: shocking_ratio_def Let_def split: sum.splits dest: getitem_error)

lemma finger_tips_error: "finger_tips h = Inl e \<Longrightarrow> e = IndexError"
  by (auto simp: finger_tips_def split: sum.splits dest: getitem_error)

lemma mouth_points_error: "mouth_points faces = Inl e \<Longrightarrow> e = IndexError"
  by (auto simp: mouth_points_def split: sum.splits dest: getitem_error)

lemma thinking_hands_loop_error: "thinking_hands_loop thr ms hs = Inl e \<Longrightarrow> e = IndexError"
  by (induction hs) (auto split: sum.splits if_splits dest: finger_tips_error)

lemma thinking_body_error: "thinking_body thr faces hs = Inl e \<Longrightarrow> e = IndexError"
  by (auto simp: thinking_body_def split: sum.splits
      dest: mouth_points_error thinking_hands_loop_error)

lemma is_thinking_no_error: "fst (is_thinking cfg pr hr fr d) \<noteq> Inl e"
  by (auto simp: is_thinking_def split: sum.splits dest: thinking_body_error)

lemma is_shocking_no_error: "fst (is_shocking cfg fr d) \<noteq> Inl e"
  by (auto simp: is_shocking_def split: sum.splits dest: shocking_ratio_error)

lemma raising_hand_loop_error:
  "fst (raising_hand_loop thr ny hs d) = Inl e \<Longrightarrow> e = IndexError"
  by (induction hs arbitrary: d) (auto simp: Let_def split: sum.splits if_splits dest: getitem_error)

lemma is_raising_hand_error: "fst (is_raising_hand cfg pr hr d) = Inl e \<Longrightarrow> e = IndexError"
  by (auto simp: is_raising_hand_def split: sum.splits if_splits
      dest: getitem_error raising_hand_loop_error)

lemma determine_pose_error_iff:
  "fst (determine_pose cfg pr hr fr d) = Inl e \<longleftrightarrow> fst (is_raising_hand cfg pr hr d) = Inl e"
proof -
  obtain r1 e1 where a: "is_raising_hand cfg pr hr d = (r1, e1)"
    by (cases "is_raising_hand cfg pr hr d") auto
  obtain r3 e3 where s: "is_shocking cfg fr e1 = (r3, e3)"
    by (cases "is_shocking cfg fr e1") auto
  show ?thesis
    using is_thinking_no_error [of cfg pr hr fr e1] is_shocking_no_error [of cfg fr e1]
    by (auto simp: determine_pose_unfold [OF a] a s split: sum.splits bool.splits)
qed

lemma determine_pose_labels:
  "fst (determine_pose cfg pr hr fr d)
     \<in> {Inl IndexError, Inr ''raising_hand'', Inr ''thinking'', Inr ''shocking'', Inr ''default''}"
proof -
  obtain r1 e1 where a: "is_raising_hand cfg pr hr d = (r1, e1)"
    by (cases "is_raising_hand cfg pr hr d") auto
  obtain r3 e3 where s: "is_shocking cfg fr e1 = (r3, e3)"
    by (cases "is_shocking cfg fr e1") auto
  show ?thesis
    using is_thinking_no_error [of cfg pr hr fr e1] is_shocking_no_error [of cfg fr e1]
      is_raising_hand_error [of cfg pr hr d]
    by (auto simp: determine_pose_unfold [OF a] a s split: sum.splits bool.splits)
qed

lemma classify_complete_no_error:
  "has_nose body \<Longrightarrow> \<forall>h \<in> set hands. has_wrist h \<Longrightarrow>
   fst (classify cfg (Some \<lparr>pose_landmarks = Some body\<rparr>)
          (Some \<lparr>multi_hand_landmarks = Some hands\<rparr>) fr)
     \<in> {Inr ''raising_hand'', Inr ''thinking'', Inr ''shocking'', Inr ''default''}"
proof -
  assume b: "has_nose body" and h: "\<forall>h \<in> set hands. has_wrist h"
  let ?P = "Some \<lparr>pose_landmarks = Some body\<rparr>"
  let ?H = "Some \<lparr>multi_hand_landmarks = Some hands\<rparr>"
  have "fst (is_raising_hand cfg ?P ?H d) \<noteq> Inl e" for d e
  proof (cases "hands = []")
    case True
    then show ?thesis by (simp add: is_raising_hand_def truthy_list_def)
  next
    case False
    then show ?thesis
      using raising_hand_loop_iff [OF h] b by (simp add: is_raising_hand_present)
  qed
  then have "fst (determine_pose cfg ?P ?H fr d) \<noteq> Inl e" for d e
    by (simp add: determine_pose_error_iff)
  then show ?thesis
    using determine_pose_labels [of cfg ?P ?H fr "reset_debug_info ?H fr"]
    by (auto simp: classify_def)
qed

text \<open>
  \<open>_is_raising_hand\<close> reads the nose and the wrists outside any \<open>try\<close>. The lists
  MediaPipe delivers always hold these points; on a list without them the read raises
  \<open>IndexError\<close>, which leaves \<open>_determine_pose\<close> and \<open>detect_pose\<close>. So the hypothesis
  of the totality theorem below cannot be dropped.
\<close>

lemma classify_raises_without_nose_or_wrist:
  "classify CONFIG_pose (Some \<lparr>pose_landmarks = Some []\<rparr>)
       (Some \<lparr>multi_hand_landmarks = Some [hand_with (30/100) tip_far]\<rparr>) None
     = (Inl IndexError,
        \<lparr>mouth_ratio = 0, hand_height = 0, hands_detected = 1, face_detected = False\<rparr>)
   \<and> classify CONFIG_pose (Some \<lparr>pose_landmarks = Some (body_with (40/100))\<rparr>)
       (Some \<lparr>multi_hand_landmarks = Some [[]]\<rparr>) None
     = (Inl IndexError,
        \<lparr>mouth_ratio = 0, hand_height = 0, hands_detected = 1, face_detected = False\<rparr>)
   \<and> fst (detect_pose CONFIG_pose (Inr ()) (Inr (Some \<lparr>pose_landmarks = Some []\<rparr>,
        Some \<lparr>multi_hand_landmarks = Some [hand_with (30/100) tip_far]\<rparr>, None)) True ''id'' self)
     = Inl IndexError"
  by (simp add: classify_def determine_pose_def is_raising_hand_def reset_debug_info_def
      truthy_list_def DebugInfo_default_def getitem_def ex_getitem detect_pose_def)

subsection \<open>The detector object\<close>

lemma ex_classify_raised:
  "classify CONFIG_pose (Some \<lparr>pose_landmarks = Some (body_with (40/100))\<rparr>)
       (Some \<lparr>multi_hand_landmarks = Some [hand_with (30/100) tip_far]\<rparr>) None
     = (Inr ''raising_hand'',
        \<lparr>mouth_ratio = 0, hand_height = 10/100, hands_detected = 1, face_detected = False\<rparr>)"
  by (simp add: classify_def determine_pose_def is_raising_hand_def reset_debug_info_def
      truthy_list_def DebugInfo_default_def ex_getitem pt_def CONFIG_pose_simps)

lemma detect_pose_detected:
  "classify cfg pr hr fr = (r, d) \<Longrightarrow>
   detect_pose cfg (Inr ()) (Inr (pr, hr, fr)) sl lang s =
     (map_sum id (\<lambda>pose_name. (if sl then DisplayFrame else OriginalFrame, pose_name)) r,
      s\<lparr>current_language := lang, debug_info := d\<rparr>)"
  by (cases r) (simp_all add: detect_pose_def Let_def)

lemma detect_pose_failed:
  "detect_pose cfg (Inl Cv2Error) det sl lang s
     = (Inr (OriginalFrame, ''default''), s\<lparr>current_language := lang\<rparr>)"
  "detect_pose cfg (Inr ()) (Inl e) sl lang s
     = (Inr (OriginalFrame, ''default''), s\<lparr>current_language := lang\<rparr>)"
  by (simp_all add: detect_pose_def Let_def)

subsection \<open>Totality\<close>

lemma is_raising_hand_no_error:
  assumes "pr \<noteq> None \<and> pose_landmarks (the pr) \<noteq> None \<and> hr \<noteq> None
             \<and> truthy_list (multi_hand_landmarks (the hr)) \<longrightarrow>
           has_nose (the (pose_landmarks (the pr)))
             \<and> (\<forall>h \<in> set (the (multi_hand_landmarks (the hr))). has_wrist h)"
  shows "fst (is_raising_hand cfg pr hr d) \<noteq> Inl e"
proof (cases "pr = None \<or> pose_landmarks (the pr) = None \<or> hr = None
                \<or> \<not> truthy_list (multi_hand_landmarks (the hr))")
  case True
  then show ?thesis by (simp add: is_raising_hand_absent)
next
  case False
  with assms have n: "has_nose (the (pose_landmarks (the pr)))"
    and w: "\<forall>h \<in> set (the (multi_hand_landmarks (the hr))). has_wrist h"
    by auto
  from False n show ?thesis
    using raising_hand_loop_iff [OF w, of "hand_raise_threshold cfg"
        "lm_y (the (pose_landmarks (the pr)) ! NOSE)" d]
    by (simp add: is_raising_hand_def getitem_def has_nose_def)
qed

text \<open>
  Claim C7. Classification is total. Let the body, when it is read (body and hands both
  present), have its nose, and every hand then have its wrist, as the lists MediaPipe
  delivers do; the face lists and the remaining hand points may be present, partial or
  absent. Then for every combination of present and absent body, hands and faces the
  classification and \<open>detect_pose\<close> raise no exception and return one of the four
  labels. \<open>_is_thinking\<close> and \<open>_is_shocking\<close> never raise, whatever their input. Every
  absence maps to a rule that does not fire or a zeroed metric: without body or hands
  RaisingHand does not fire and \<open>hand_height\<close> is 0, without face or hands Thinking does
  not fire, without face Shocking does not fire and \<open>mouth_ratio\<close> is 0.
\<close>

theorem classify_total:
  assumes "pr \<noteq> None \<and> pose_landmarks (the pr) \<noteq> None \<and> hr \<noteq> None
             \<and> truthy_list (multi_hand_landmarks (the hr)) \<longrightarrow>
           has_nose (the (pose_landmarks (the pr)))
             \<and> (\<forall>h \<in> set (the (multi_hand_landmarks (the hr))). has_wrist h)"
  shows
    "fst (classify cfg pr hr fr)
       \<in> {Inr ''raising_hand'', Inr ''thinking'', Inr ''shocking'', Inr ''default''}
     \<and> map_sum id snd (fst (detect_pose cfg (Inr ()) (Inr (pr, hr, fr)) sl lang s))
       \<in> {Inr ''raising_hand'', Inr ''thinking'', Inr ''shocking'', Inr ''default''}
     \<and> fst (is_thinking cfg pr hr fr d) \<noteq> Inl e
     \<and> fst (is_shocking cfg fr d) \<noteq> Inl e
     \<and> (pr = None \<or> pose_landmarks (the pr) = None \<or> hr = None
          \<or> \<not> truthy_list (multi_hand_landmarks (the hr)) \<longrightarrow>
        is_raising_hand cfg pr hr d = (Inr False, d\<lparr>hand_height := 0\<rparr>))
     \<and> (fr = None \<or> hr = None \<or> \<not> truthy_list (multi_face_landmarks (the fr))
          \<or> \<not> truthy_list (multi_hand_landmarks (the hr)) \<longrightarrow>
        is_thinking cfg pr hr fr d = (Inr False, d))
     \<and> (fr = None \<or> \<not> truthy_list (multi_face_landmarks (the fr)) \<longrightarrow>
        is_shocking cfg fr d = (Inr False, d\<lparr>mouth_ratio := 0\<rparr>))"
proof -
  let ?L = "{Inr ''raising_hand'', Inr ''thinking'', Inr ''shocking'', Inr ''default''}
              :: (error + string) set"
  have "fst (determine_pose cfg pr hr fr d') \<noteq> Inl e'" for d' e'
    using is_raising_hand_no_error [OF assms] by (simp add: determine_pose_error_iff)
  then have c: "fst (classify cfg pr hr fr) \<in> ?L"
    using determine_pose_labels [of cfg pr hr fr "reset_debug_info hr fr"]
    by (auto simp: classify_def)
  obtain r d0 where r: "classify cfg pr hr fr = (r, d0)"
    by (cases "classify cfg pr hr fr") auto
  have dp: "map_sum id snd (fst (detect_pose cfg (Inr ()) (Inr (pr, hr, fr)) sl lang s)) \<in> ?L"
    using c by (cases r) (auto simp: detect_pose_detected [OF r] r)
  show ?thesis
    using c dp is_thinking_no_error [of cfg pr hr fr d e] is_shocking_no_error [of cfg fr d e]
      is_raising_hand_absent [of pr hr cfg d] is_thinking_absent [of fr hr cfg pr d]
      is_shocking_absent [of fr cfg d]
    by blast
qed

theorem classify_total_witness:
  "has_nose (body_with (40/100))
   \<and> has_wrist (hand_with (30/100) tip_far)
   \<and> fst (classify CONFIG_pose (Some \<lparr>pose_landmarks = Some (body_with (40/100))\<rparr>)
        (Some \<lparr>multi_hand_landmarks = Some [hand_with (30/100) tip_far]\<rparr>) None)
       = Inr ''raising_hand''
   \<and> fst (detect_pose CONFIG_pose (Inr ())
        (Inr (Some \<lparr>pose_landmarks = Some (body_with (40/100))\<rparr>,
              Some \<lparr>multi_hand_landmarks = Some [hand_with (30/100) tip_far]\<rparr>, None)) False ''en''
        \<lparr>debug_info = DebugInfo_default, current_language = ''id''\<rparr>)
       = Inr (OriginalFrame, ''raising_hand'')
   \<and> is_raising_hand CONFIG_pose None
        (Some \<lparr>multi_hand_landmarks = Some [hand_with (30/100) tip_far]\<rparr>) DebugInfo_default
       = (Inr False, DebugInfo_default\<lparr>hand_height := 0\<rparr>)
   \<and> is_thinking CONFIG_pose None
        (Some \<lparr>multi_hand_landmarks = Some [hand_with (30/100) tip_far]\<rparr>) None DebugInfo_default
       = (Inr False, DebugInfo_default)
   \<and> is_shocking CONFIG_pose None DebugInfo_default
       = (Inr False, DebugInfo_default\<lparr>mouth_ratio := 0\<rparr>)
   \<and> fst (classify CONFIG_pose None
        (Some \<lparr>multi_hand_landmarks = Some [hand_with (30/100) tip_far]\<rparr>) None)
       = Inr ''default''"
  using classify_total [where cfg = CONFIG_pose
      and pr = "Some \<lparr>pose_landmarks = Some (body_with (40/100))\<rparr>"
      and hr = "Some \<lparr>multi_hand_landmarks = Some [hand_with (30/100) tip_far]\<rparr>"
      and fr = None and sl = False and lang = "''en''"
      and s = "\<lparr>debug_info = DebugInfo_default, current_language = ''id''\<rparr>"
      and d = DebugInfo_default and e = IndexError]
    classify_total [where cfg = CONFIG_pose and pr = None
      and hr = "Some \<lparr>multi_hand_landmarks = Some [hand_with (30/100) tip_far]\<rparr>"
      and fr = None and sl = False and lang = "''en''"
      and s = "\<lparr>debug_info = DebugInfo_default, current_language = ''id''\<rparr>"
      and d = DebugInfo_default and e = IndexError]
    ex_classify_raised
    detect_pose_detected [OF ex_classify_raised, of False "''en''"]
  by (simp add: ex_simps truthy_list_def classify_def determine_pose_def
      reset_debug_info_def DebugInfo_default_def is_raising_hand_def is_thinking_def
      is_shocking_def ex_getitem pt_def CONFIG_pose_simps)

text \<open>
  Claim C8. When conversion and detection succeed, the pose name and the debug
  information \<open>detect_pose\<close> leaves behind are those of \<open>classify\<close> on the detection
  results and the thresholds: they are the same from any two detector states, so nothing
  of an earlier frame (the earlier debug information included) reaches them.
\<close>

theorem detect_pose_memoryless:
  "fst (detect_pose cfg (Inr ()) (Inr (pr, hr, fr)) sl lang s)
     = fst (detect_pose cfg (Inr ()) (Inr (pr, hr, fr)) sl lang s')
   \<and> debug_info (snd (detect_pose cfg (Inr ()) (Inr (pr, hr, fr)) sl lang s))
     = debug_info (snd (detect_pose cfg (Inr ()) (Inr (pr, hr, fr)) sl lang s'))
   \<and> debug_info (snd (detect_pose cfg (Inr ()) (Inr (pr, hr, fr)) sl lang s))
     = snd (classify cfg pr hr fr)
   \<and> map_sum id snd (fst (detect_pose cfg (Inr ()) (Inr (pr, hr, fr)) sl lang s))
     = fst (classify cfg pr hr fr)"
proof -
  obtain r d where c: "classify cfg pr hr fr = (r, d)"
    by (cases "classify cfg pr hr fr") auto
  show ?thesis
    by (cases r) (simp_all add: detect_pose_detected [OF c] c)
qed

theorem detect_pose_memoryless_witness:
  "fst (detect_pose CONFIG_pose (Inr ())
        (Inr (Some \<lparr>pose_landmarks = Some (body_with (40/100))\<rparr>,
              Some \<lparr>multi_hand_landmarks = Some [hand_with (30/100) tip_far]\<rparr>, None)) True ''id''
        \<lparr>debug_info = \<lparr>mouth_ratio = 7/10, hand_height = 9/10, hands_detected = 2,
             face_detected = True\<rparr>, current_language = ''en''\<rparr>)
     = Inr (DisplayFrame, ''raising_hand'')
   \<and> debug_info (snd (detect_pose CONFIG_pose (Inr ())
        (Inr (Some \<lparr>pose_landmarks = Some (body_with (40/100))\<rparr>,
              Some \<lparr>multi_hand_landmarks = Some [hand_with (30/100) tip_far]\<rparr>, None)) True ''id''
        \<lparr>debug_info = \<lparr>mouth_ratio = 7/10, hand_height = 9/10, hands_detected = 2,
             face_detected = True\<rparr>, current_language = ''en''\<rparr>))
     = \<lparr>mouth_ratio = 0, hand_height = 10/100, hands_detected = 1, face_detected = False\<rparr>
   \<and> debug_info (snd (detect_pose CONFIG_pose (Inr ())
        (Inr (Some \<lparr>pose_landmarks = Some (body_with (40/100))\<rparr>,
              Some \<lparr>multi_hand_landmarks = Some [hand_with (30/100) tip_far]\<rparr>, None)) True ''id''
        \<lparr>debug_info = DebugInfo_default, current_language = ''id''\<rparr>))
     = \<lparr>mouth_ratio = 0, hand_height = 10/100, hands_detected = 1, face_detected = False\<rparr>"
  using detect_pose_memoryless [where cfg = CONFIG_pose
      and pr = "Some \<lparr>pose_landmarks = Some (body_with (40/100))\<rparr>"
      and hr = "Some \<lparr>multi_hand_landmarks = Some [hand_with (30/100) tip_far]\<rparr>"
      and fr = None and sl = True and lang = "''id''"
      and s = "\<lparr>debug_info = \<lparr>mouth_ratio = 7/10, hand_height = 9/10, hands_detected = 2,
             face_detected = True\<rparr>, current_language = ''en''\<rparr>"
      and s' = "\<lparr>debug_info = DebugInfo_default, current_language = ''id''\<rparr>"]
    detect_pose_detected [OF ex_classify_raised, of True "''id''"] ex_classify_raised
  by simp

text \<open>
  Claim C9. When \<open>cv2.cvtColor\<close> raises \<open>cv2.error\<close>, or a detector raises, \<open>detect_pose\<close>
  returns the frame it was given and the name \<open>default\<close>, and the stored debug
  information is unchanged: after a successful call, a failing call still shows the
  metrics of the successful one.
\<close>

theorem detect_pose_failure_keeps_debug_info:
  "detect_pose cfg (Inl Cv2Error) det sl lang s
     = (Inr (OriginalFrame, ''default''), s\<lparr>current_language := lang\<rparr>)
   \<and> detect_pose cfg (Inr ()) (Inl e) sl lang s
     = (Inr (OriginalFrame, ''default''), s\<lparr>current_language := lang\<rparr>)
   \<and> debug_info (snd (detect_pose cfg (Inl Cv2Error) det sl lang s)) = debug_info s
   \<and> debug_info (snd (detect_pose cfg (Inr ()) (Inl e) sl lang s)) = debug_info s
   \<and> debug_info (snd (detect_pose cfg (Inr ()) (Inl e) sl' lang'
        (snd (detect_pose cfg (Inr ()) (Inr (pr, hr, fr)) sl lang s))))
     = snd (classify cfg pr hr fr)"
proof -
  obtain r d where c: "classify cfg pr hr fr = (r, d)"
    by (cases "classify cfg pr hr fr") auto
  show ?thesis
    by (simp add: detect_pose_failed detect_pose_detected [OF c] c)
qed

theorem detect_pose_failure_keeps_debug_info_witness:
  "detect_pose CONFIG_pose (Inl Cv2Error) (Inl OtherException) True ''id''
       \<lparr>debug_info = \<lparr>mouth_ratio = 7/10, hand_height = 9/10, hands_detected = 2,
            face_detected = True\<rparr>, current_language = ''en''\<rparr>
     = (Inr (OriginalFrame, ''default''),
        \<lparr>debug_info = \<lparr>mouth_ratio = 7/10, hand_height = 9/10, hands_detected = 2,
            face_detected = True\<rparr>, current_language = ''id''\<rparr>)
   \<and> debug_info (snd (detect_pose CONFIG_pose (Inr ()) (Inl OtherException) True ''id''
        (snd (detect_pose CONFIG_pose (Inr ())
          (Inr (Some \<lparr>pose_landmarks = Some (body_with (40/100))\<rparr>,
                Some \<lparr>multi_hand_landmarks = Some [hand_with (30/100) tip_far]\<rparr>, None)) True ''id''
          \<lparr>debug_info = DebugInfo_default, current_language = ''id''\<rparr>))))
     = \<lparr>mouth_ratio = 0, hand_height = 10/100, hands_detected = 1, face_detected = False\<rparr>"
  using detect_pose_failure_keeps_debug_info [where cfg = CONFIG_pose
      and det = "Inl OtherException" and e = OtherException and sl = True and lang = "''id''"
      and sl' = True and lang' = "''id''"
      and pr = "Some \<lparr>pose_landmarks = Some (body_with (40/100))\<rparr>"
      and hr = "Some \<lparr>multi_hand_landmarks = Some [hand_with (30/100) tip_far]\<rparr>"
      and fr = None
      and s = "\<lparr>debug_info = \<lparr>mouth_ratio = 7/10, hand_height = 9/10, hands_detected = 2,
            face_detected = True\<rparr>, current_language = ''en''\<rparr>"]
    detect_pose_failure_keeps_debug_info [where cfg = CONFIG_pose
      and det = "Inl OtherException" and e = OtherException and sl = True and lang = "''id''"
      and sl' = True and lang' = "''id''"
      and pr = "Some \<lparr>pose_landmarks = Some (body_with (40/100))\<rparr>"
      and hr = "Some \<lparr>multi_hand_landmarks = Some [hand_with (30/100) tip_far]\<rparr>"
      and fr = None
      and s = "\<lparr>debug_info = DebugInfo_default, current_language = ''id''\<rparr>"]
    ex_classify_raised
  by simp

subsection \<open>The mouth ratio\<close>

lemma shocking_ratio_nonneg: "shocking_ratio faces = Inr r \<Longrightarrow> 0 \<le> r"
  by (auto simp: shocking_ratio_def Let_def split: sum.splits if_splits)

lemma is_shocking_mouth_ratio_nonneg:
  "0 \<le> mouth_ratio d \<Longrightarrow> 0 \<le> mouth_ratio (snd (is_shocking cfg fr d))"
  by (auto simp: is_shocking_def split: sum.splits dest: shocking_ratio_nonneg)

lemma determine_pose_mouth_ratio_nonneg:
  "0 \<le> mouth_ratio d \<Longrightarrow> 0 \<le> mouth_ratio (snd (determine_pose cfg pr hr fr d))"
proof -
  assume d: "0 \<le> mouth_ratio d"
  obtain r1 e1 where a: "is_raising_hand cfg pr hr d = (r1, e1)"
    by (cases "is_raising_hand cfg pr hr d") auto
  obtain r3 e3 where s: "is_shocking cfg fr e1 = (r3, e3)"
    by (cases "is_shocking cfg fr e1") auto
  have e1: "0 \<le> mouth_ratio e1"
    using is_raising_hand_frame [of cfg pr hr d] d by (simp add: a)
  then have "0 \<le> mouth_ratio e3"
    using is_shocking_mouth_ratio_nonneg [of e1 cfg fr] by (simp add: s)
  with e1 show ?thesis
    by (simp add: determine_pose_unfold [OF a] s split: sum.splits bool.splits)
qed

lemma reset_debug_info_mouth_ratio: "mouth_ratio (reset_debug_info hr fr) = 0"
  by (simp add: reset_debug_info_def DebugInfo_default_def Let_def)

text \<open>
  Claim C10. After classification \<open>mouth_ratio\<close> is never negative, for every detection
  result and all thresholds.
\<close>

theorem mouth_ratio_nonneg:
  "0 \<le> mouth_ratio (snd (classify cfg pr hr fr))"
  by (simp add: classify_def determine_pose_mouth_ratio_nonneg reset_debug_info_mouth_ratio)

theorem mouth_ratio_nonneg_witness:
  "0 \<le> mouth_ratio (snd (classify CONFIG_pose None None
        (Some \<lparr>multi_face_landmarks = Some [face_open]\<rparr>)))
   \<and> classify CONFIG_pose None None (Some \<lparr>multi_face_landmarks = Some [face_open]\<rparr>)
     = (Inr ''shocking'',
        \<lparr>mouth_ratio = 20/100, hand_height = 0, hands_detected = 0, face_detected = True\<rparr>)"
  using mouth_ratio_nonneg [of CONFIG_pose None None
      "Some \<lparr>multi_face_landmarks = Some [face_open]\<rparr>"]
  by (simp add: classify_def determine_pose_def is_raising_hand_def is_thinking_def
      is_shocking_present ex_faces reset_debug_info_def truthy_list_def DebugInfo_default_def
      CONFIG_pose_simps)

end
